theory Spec2Isabelle
  imports Main
begin

section \<open>Strings and numbers of the host language\<close>

text \<open>
  A Python \<open>str\<close> is a sequence of Unicode code points. The texts of \<open>main.py\<close> are
  Korean, so a string is modelled as the list of its code points; \<open>ascii\<close> embeds an
  ASCII literal.
\<close>

type_synonym ustr = "nat list"

definition ascii :: "string \<Rightarrow> ustr" where
  "ascii s = map of_char s"

text \<open>\<open>str(n)\<close> for a length: the decimal digits, most significant first.\<close>

fun str_nat :: "nat \<Rightarrow> ustr" where
  "str_nat n = (if n < 10 then [48 + n] else str_nat (n div 10) @ [48 + n mod 10])"

declare str_nat.simps [simp del]

text \<open>
  The slice \<open>xs[:n]\<close>: the first \<open>n\<close> elements for \<open>n \<ge> 0\<close>, all but the last \<open>-n\<close>
  for a negative \<open>n\<close>.
\<close>

definition slice_to :: "int \<Rightarrow> 'a list \<Rightarrow> 'a list" where
  "slice_to n xs = (if 0 \<le> n then take (nat n) xs else take (length xs - nat (- n)) xs)"

datatype error = ImportError | AttributeError | KeyError | TypeError

section \<open>Constants and the mode registry (main.py, lines 15 to 51)\<close>

definition DEFAULT_DATA_SIZE :: int where "DEFAULT_DATA_SIZE = 15"
definition QUICK_SORT_MAX_SIZE :: int where "QUICK_SORT_MAX_SIZE = 8"
definition MERGE_SORT_MAX_SIZE :: int where "MERGE_SORT_MAX_SIZE = 8"
definition HEAP_SORT_MAX_SIZE :: int where "HEAP_SORT_MAX_SIZE = 10"

text \<open>
  The value under \<open>'visualizer_class'\<close> is the imported class \<open>BarVisualizer\<close> itself for
  the basic mode and the name of a class, a string, for the others.
\<close>

datatype class_ref = ClassObject ustr | ClassName ustr

record mode_config =
  title :: ustr
  visualizer_class :: class_ref
  max_size :: "int option"
  has_algorithm_selection :: bool
  module :: "ustr option"

text \<open>The four titles: U+AE30 U+BCF8 ... is the Korean for "basic sorting algorithms", and so on.\<close>

definition title_basic :: ustr where
  "title_basic = [0xAE30, 0xBCF8, 0x20, 0xC815, 0xB82C, 0x20, 0xC54C, 0xACE0, 0xB9AC, 0xC998]"

definition title_quick :: ustr where
  "title_quick = [0xD035, 0x20, 0xC815, 0xB82C, 0x20] @ ascii ''(Quick Sort)''"

definition title_merge :: ustr where
  "title_merge = [0xBCD1, 0xD569, 0x20, 0xC815, 0xB82C, 0x20] @ ascii ''(Merge Sort)''"

definition title_heap :: ustr where
  "title_heap = [0xD799, 0x20, 0xC815, 0xB82C, 0x20] @ ascii ''(Heap Sort)''"

definition basic_config :: mode_config where
  "basic_config = \<lparr>title = title_basic,
     visualizer_class = ClassObject (ascii ''BarVisualizer''),
     max_size = None, has_algorithm_selection = True, module = None\<rparr>"

definition quick_config :: mode_config where
  "quick_config = \<lparr>title = title_quick,
     visualizer_class = ClassName (ascii ''QuickSortVisualizer''),
     max_size = Some QUICK_SORT_MAX_SIZE, has_algorithm_selection = False,
     module = Some (ascii ''visualizers.quick_visualizer'')\<rparr>"

definition merge_config :: mode_config where
  "merge_config = \<lparr>title = title_merge,
     visualizer_class = ClassName (ascii ''MergeSortVisualizer''),
     max_size = Some MERGE_SORT_MAX_SIZE, has_algorithm_selection = False,
     module = Some (ascii ''visualizers.merge_visualizer'')\<rparr>"

definition heap_config :: mode_config where
  "heap_config = \<lparr>title = title_heap,
     visualizer_class = ClassName (ascii ''HeapSortVisualizer''),
     max_size = Some HEAP_SORT_MAX_SIZE, has_algorithm_selection = False,
     module = Some (ascii ''visualizers.heap_visualizer'')\<rparr>"

definition MODE_CONFIGS :: "ustr \<rightharpoonup> mode_config" where
  "MODE_CONFIGS = map_of
     [(ascii ''basic'', basic_config), (ascii ''quick'', quick_config),
      (ascii ''merge'', merge_config), (ascii ''heap'', heap_config)]"

section \<open>The texts of the status line and of the placeholder\<close>

text \<open>\<open>"... | (data size): "\<close>, the tail of the status after a mode switch (line 187).\<close>

definition txt_data_size :: ustr where
  "txt_data_size = [0x20, 0x7C, 0x20, 0xB370, 0xC774, 0xD130, 0x20, 0xD06C, 0xAE30, 0x3A, 0x20]"

text \<open>The status the status bar is created with (line 132): "ready | data size: 15".\<close>

definition txt_ready :: ustr where
  "txt_ready = [0xC900, 0xBE44, 0xB428] @ txt_data_size @ ascii ''15''"

text \<open>The placeholder drawn on the canvas (line 198) and its status (line 203).\<close>

definition txt_placeholder :: ustr where
  "txt_placeholder = [0x20, 0xC2DC, 0xAC01, 0xD654, 0xA, 0x28, 0xAD6C, 0xD604, 0x20, 0xC608, 0xC815, 0x29]"

definition txt_not_implemented :: ustr where
  "txt_not_implemented = [0x20, 0x2D, 0x20, 0xC544, 0xC9C1, 0x20, 0xAD6C, 0xD604, 0xB418, 0xC9C0,
     0x20, 0xC54A, 0xC558, 0xC2B5, 0xB2C8, 0xB2E4]"

text \<open>"resumed: " (line 268), "running: " (lines 276, 279), "paused (...)" (line 291).\<close>

definition txt_resumed :: ustr where
  "txt_resumed = [0xC7AC, 0xAC1C, 0xB428, 0x3A, 0x20]"

definition txt_running :: ustr where
  "txt_running = [0xC2E4, 0xD589, 0x20, 0xC911, 0x3A, 0x20]"

definition txt_paused :: ustr where
  "txt_paused = [0xC77C, 0xC2DC, 0xC815, 0xC9C0, 0xB428, 0x20, 0x28, 0xC2DC, 0xC791, 0x20,
     0xBC84, 0xD2BC, 0xC73C, 0xB85C, 0x20, 0xC7AC, 0xAC1C, 0x29]"

text \<open>"reset | data size: " (line 298), "new data generated | size: " (line 321),
  "algorithm changed: " (line 327), "sorting complete!" (line 332).\<close>

definition txt_reset :: ustr where
  "txt_reset = [0xB9AC, 0xC14B, 0xB428] @ txt_data_size"

definition txt_generated :: ustr where
  "txt_generated = [0xC0C8, 0x20, 0xB370, 0xC774, 0xD130, 0x20, 0xC0DD, 0xC131, 0xB428,
     0x20, 0x7C, 0x20, 0xD06C, 0xAE30, 0x3A, 0x20]"

definition txt_algorithm_changed :: ustr where
  "txt_algorithm_changed = [0xC54C, 0xACE0, 0xB9AC, 0xC998, 0x20, 0xBCC0, 0xACBD, 0x3A, 0x20]"

definition txt_complete :: ustr where
  "txt_complete = [0xC815, 0xB82C, 0x20, 0xC644, 0xB8CC, 0x21]"

section \<open>The collaborators of the Orchestrator\<close>

text \<open>
  Modelled from the spec: the state of a Visualizer (\<open>visualizers/*.py\<close> are not part of
  \<open>main.py\<close>). The fields are the VisualizerState of section 3 of the specification, as
  far as \<open>main.py\<close> reads or writes them (\<open>data\<close>, \<open>is_running\<close>, \<open>is_paused\<close>,
  \<open>_current_generator\<close>, \<open>on_complete\<close>) or sets them through a method (\<open>set_step_mode\<close>,
  \<open>set_delay\<close>). \<open>'g\<close> is the type of a producer (a suspended generator).
\<close>

datatype callback = On_sort_complete

record 'g visualizer =
  vdata :: "int list"
  is_running :: bool
  is_paused :: bool
  step_mode :: bool
  delay :: int
  current_generator :: "'g option"
  on_complete :: "callback option"

text \<open>
  Modelled from the spec: the ControlPanel (\<open>core/controls.py\<close> is not part of \<open>main.py\<close>),
  as far as \<open>main.py\<close> uses it: \<open>get_step_mode()\<close>, \<open>algorithm_var.get()\<close> and
  \<open>set_running_state(b)\<close>, which by section 6 only reflects whether the start and stop
  controls are enabled.
\<close>

record controls =
  step_mode_var :: bool
  algorithm_var :: ustr
  running_state :: bool

text \<open>
  Everything \<open>main.py\<close> calls and does not define is a parameter of the model: the
  methods of the Visualizer classes (the constructor takes the class and the array), the
  modules that can be imported with the names each defines, the random data generator,
  the table \<open>BarVisualizer.ALGORITHM_NAMES\<close>, the ControlPanel constructor (its argument:
  whether \<open>on_algorithm_change\<close> is given) and the size of the canvas widget.
\<close>

record 'g env =
  v_new :: "ustr \<Rightarrow> int list \<Rightarrow> 'g visualizer"
  v_draw :: "'g visualizer \<Rightarrow> 'g visualizer"
  v_stop :: "'g visualizer \<Rightarrow> 'g visualizer"
  v_sort :: "ustr option \<Rightarrow> 'g visualizer \<Rightarrow> 'g visualizer"
  v_step :: "'g visualizer \<Rightarrow> 'g visualizer"
  v_reset :: "int list option \<Rightarrow> 'g visualizer \<Rightarrow> 'g visualizer"
  v_set_step_mode :: "bool \<Rightarrow> 'g visualizer \<Rightarrow> 'g visualizer"
  v_set_delay :: "int \<Rightarrow> 'g visualizer \<Rightarrow> 'g visualizer"
  v_can_resume :: "'g visualizer \<Rightarrow> bool"
  v_run_visualization :: "'g \<Rightarrow> 'g visualizer \<Rightarrow> 'g visualizer"
  modules :: "ustr \<rightharpoonup> ustr list"
  generate_random_data :: "int \<Rightarrow> int list"
  ALGORITHM_NAMES :: "ustr \<rightharpoonup> ustr"
  ControlPanel :: "bool \<Rightarrow> controls"
  winfo_width :: int
  winfo_height :: int

section \<open>The Orchestrator (class SortingVisualizerApp)\<close>

text \<open>
  Every call the Orchestrator makes on a collaborator is an event; the trace keeps the
  events in the order of the calls.
\<close>

datatype 'g event =
    VStop
  | VNew ustr "int list"
  | VSetOnComplete
  | VDraw
  | VSort "ustr option"
  | VRun 'g
  | VStep
  | VReset "int list option"
  | VSetStepMode bool
  | VSetDelay int
  | SetTitle ustr
  | SetStatus ustr
  | ClearControlFrame
  | NewControlPanel bool
  | SetRunningState bool
  | CanvasDeleteAll
  | CanvasCreateText int int ustr

text \<open>
  The state: the fields of the application object, with the module's global
  \<open>MODE_CONFIGS\<close> (a mutable dict in Python) as \<open>mode_configs\<close>. \<open>controls = None\<close>
  stands for the attribute \<open>self.controls\<close> not being set yet.

  A handler returns \<open>Inr\<close> of the new state, or \<open>Inl\<close> of the exception it raises
  (the state at the raise is not kept). A Visualizer object is truthy, so
  \<open>if self.visualizer:\<close> tests for \<open>None\<close>. A method of a Visualizer is a function on
  its state that returns; the ticks of the animation timer, which run between two
  handlers, belong to the Visualizer classes and are not modelled. The class defines
  \<open>_show_not_implemented\<close> and \<open>_stop_current\<close> twice with the same body (modelled
  once) and a method \<open>_switch_to_heap\<close> that nothing calls (not modelled).
\<close>

record 'g app =
  mode_configs :: "ustr \<rightharpoonup> mode_config"
  current_mode :: "ustr option"
  visualizer :: "'g visualizer option"
  data :: "int list"
  controls :: "controls option"
  title_label :: ustr
  status_bar :: ustr
  trace :: "'g event list"

definition emit :: "'g event \<Rightarrow> 'g app \<Rightarrow> 'g app" where
  "emit e a = a\<lparr>trace := trace a @ [e]\<rparr>"

definition update_status :: "ustr \<Rightarrow> 'g app \<Rightarrow> 'g app" where
  "update_status message a = emit (SetStatus message) (a\<lparr>status_bar := message\<rparr>)"

text \<open>\<open>MODE_CONFIGS[self.current_mode]\<close>: a KeyError when the key is missing.\<close>

definition current_config :: "'g app \<Rightarrow> error + mode_config" where
  "current_config a =
     (case current_mode a of
        None \<Rightarrow> Inl KeyError
      | Some m \<Rightarrow> (case mode_configs a m of None \<Rightarrow> Inl KeyError | Some config \<Rightarrow> Inr config))"

text \<open>\<open>self.data[:max_size] if max_size else self.data\<close>: \<open>None\<close> and \<open>0\<close> are falsy.\<close>

definition data_to_use :: "mode_config \<Rightarrow> int list \<Rightarrow> int list" where
  "data_to_use config xs =
     (case max_size config of
        None \<Rightarrow> xs
      | Some n \<Rightarrow> if n \<noteq> 0 then slice_to n xs else xs)"

definition stop_current :: "'g env \<Rightarrow> 'g app \<Rightarrow> 'g app" where
  "stop_current E a =
     (case visualizer a of
        None \<Rightarrow> a
      | Some v \<Rightarrow> emit VStop (a\<lparr>visualizer := Some (v_stop E v)\<rparr>))"

text \<open>\<open>w // 2 or d\<close>: the default \<open>d\<close> when the half is \<open>0\<close>.\<close>

definition half_or :: "int \<Rightarrow> int \<Rightarrow> int" where
  "half_or w d = (if w div 2 \<noteq> 0 then w div 2 else d)"

definition show_not_implemented :: "'g env \<Rightarrow> ustr \<Rightarrow> 'g app \<Rightarrow> 'g app" where
  "show_not_implemented E name a =
     update_status (name @ txt_not_implemented)
       (emit (CanvasCreateText (half_or (winfo_width E) 400) (half_or (winfo_height E) 250)
                (name @ txt_placeholder))
          (emit CanvasDeleteAll a))"

text \<open>
  Lines 160 to 164: the class comes from the import of the module when the configuration
  names one (\<open>__import__\<close> raises ImportError for a module that cannot be loaded,
  \<open>getattr\<close> AttributeError for a name the module does not define), and is the
  configuration's own value otherwise. A class is identified by its name. A string in
  the place of the class, or a class in the place of the name, is a TypeError.
\<close>

definition import_class :: "'g env \<Rightarrow> mode_config \<Rightarrow> error + ustr" where
  "import_class E config =
     (case module config of
        Some m \<Rightarrow>
          if m \<noteq> [] then
            (case modules E m of
               None \<Rightarrow> Inl ImportError
             | Some names \<Rightarrow>
                 (case visualizer_class config of
                    ClassName c \<Rightarrow> if c \<in> set names then Inr c else Inl AttributeError
                  | ClassObject c \<Rightarrow> Inl TypeError))
          else (case visualizer_class config of ClassObject c \<Rightarrow> Inr c | ClassName c \<Rightarrow> Inl TypeError)
      | None \<Rightarrow>
          (case visualizer_class config of ClassObject c \<Rightarrow> Inr c | ClassName c \<Rightarrow> Inl TypeError))"

definition switch_to_mode :: "'g env \<Rightarrow> ustr \<Rightarrow> 'g app \<Rightarrow> error + 'g app" where
  "switch_to_mode E mode a =
     (if mode \<notin> dom (mode_configs a) then Inr a
      else
        let a1 = stop_current E a;
            a2 = a1\<lparr>current_mode := Some mode\<rparr>
        in (case mode_configs a2 mode of
              None \<Rightarrow> Inl KeyError
            | Some config \<Rightarrow>
                let a3 = emit (SetTitle (title config)) (a2\<lparr>title_label := title config\<rparr>);
                    a4 = emit ClearControlFrame a3
                in (case import_class E config of
                      Inl ImportError \<Rightarrow> Inr (show_not_implemented E (title config) a4)
                    | Inl e \<Rightarrow> Inl e
                    | Inr cls \<Rightarrow>
                        let a5 = emit (NewControlPanel (has_algorithm_selection config))
                                   (a4\<lparr>controls :=
                                         Some (ControlPanel E (has_algorithm_selection config))\<rparr>);
                            xs = data_to_use config (data a5);
                            v = v_new E cls xs;
                            a6 = emit (VNew cls xs) (a5\<lparr>visualizer := Some v\<rparr>);
                            a7 = emit VSetOnComplete
                                   (a6\<lparr>visualizer := Some (v\<lparr>on_complete := Some On_sort_complete\<rparr>)\<rparr>);
                            a8 = emit VDraw
                                   (a7\<lparr>visualizer :=
                                         Some (v_draw E (v\<lparr>on_complete := Some On_sort_complete\<rparr>))\<rparr>)
                        in Inr (update_status (title config @ txt_data_size @ str_nat (length xs)) a8))))"

definition resume_visualization :: "'g env \<Rightarrow> 'g app \<Rightarrow> 'g app" where
  "resume_visualization E a =
     (case visualizer a of
        None \<Rightarrow> a
      | Some v \<Rightarrow>
          (case current_generator v of
             None \<Rightarrow> a
           | Some g \<Rightarrow> emit (VRun g) (a\<lparr>visualizer := Some (v_run_visualization E g v)\<rparr>)))"

definition start_sort :: "'g env \<Rightarrow> 'g app \<Rightarrow> error + 'g app" where
  "start_sort E a =
     (case visualizer a of
        None \<Rightarrow> Inr a
      | Some v \<Rightarrow>
          (case controls a of
             None \<Rightarrow> Inl AttributeError
           | Some c \<Rightarrow>
               let v1 = v_set_step_mode E (step_mode_var c) v;
                   a1 = emit (VSetStepMode (step_mode_var c)) (a\<lparr>visualizer := Some v1\<rparr>);
                   a2 = emit (SetRunningState True)
                          (a1\<lparr>controls := Some (c\<lparr>running_state := True\<rparr>)\<rparr>)
               in if v_can_resume E v1 then
                    let a3 = a2\<lparr>visualizer := Some (v1\<lparr>is_paused := False, is_running := True\<rparr>)\<rparr>;
                        a4 = resume_visualization E a3
                    in (case current_config a4 of
                          Inl e \<Rightarrow> Inl e
                        | Inr config \<Rightarrow> Inr (update_status (txt_resumed @ title config) a4))
                  else
                    (case current_config a2 of
                       Inl e \<Rightarrow> Inl e
                     | Inr config \<Rightarrow>
                         if has_algorithm_selection config then
                           let algorithm = algorithm_var c;
                               a3 = emit (VSort (Some algorithm))
                                      (a2\<lparr>visualizer := Some (v_sort E (Some algorithm) v1)\<rparr>);
                               algo_name = (case ALGORITHM_NAMES E algorithm of
                                              Some n \<Rightarrow> n | None \<Rightarrow> algorithm)
                           in Inr (update_status (txt_running @ algo_name) a3)
                         else
                           let a3 = emit (VSort None) (a2\<lparr>visualizer := Some (v_sort E None v1)\<rparr>)
                           in Inr (update_status (txt_running @ title config) a3))))"

definition stop_sort :: "'g env \<Rightarrow> 'g app \<Rightarrow> error + 'g app" where
  "stop_sort E a =
     (case visualizer a of
        None \<Rightarrow> Inr a
      | Some v \<Rightarrow>
          let a1 = emit VStop (a\<lparr>visualizer := Some (v_stop E v)\<rparr>)
          in (case controls a1 of
                None \<Rightarrow> Inl AttributeError
              | Some c \<Rightarrow>
                  Inr (update_status txt_paused
                         (emit (SetRunningState False)
                            (a1\<lparr>controls := Some (c\<lparr>running_state := False\<rparr>)\<rparr>)))))"

definition reset_sort :: "'g env \<Rightarrow> 'g app \<Rightarrow> error + 'g app" where
  "reset_sort E a =
     (case visualizer a of
        None \<Rightarrow> Inr a
      | Some v \<Rightarrow>
          let v1 = v_reset E None v;
              a1 = emit (VReset None) (a\<lparr>visualizer := Some v1\<rparr>)
          in (case controls a1 of
                None \<Rightarrow> Inl AttributeError
              | Some c \<Rightarrow>
                  Inr (update_status (txt_reset @ str_nat (length (vdata v1)))
                         (emit (SetRunningState False)
                            (a1\<lparr>controls := Some (c\<lparr>running_state := False\<rparr>)\<rparr>)))))"

definition step_sort :: "'g env \<Rightarrow> 'g app \<Rightarrow> error + 'g app" where
  "step_sort E a =
     (case visualizer a of
        None \<Rightarrow> Inr a
      | Some v \<Rightarrow> Inr (emit VStep (a\<lparr>visualizer := Some (v_step E v)\<rparr>)))"

definition change_speed :: "'g env \<Rightarrow> int \<Rightarrow> 'g app \<Rightarrow> error + 'g app" where
  "change_speed E speed a =
     (case visualizer a of
        None \<Rightarrow> Inr a
      | Some v \<Rightarrow> Inr (emit (VSetDelay speed) (a\<lparr>visualizer := Some (v_set_delay E speed v)\<rparr>)))"

definition generate_data :: "'g env \<Rightarrow> int \<Rightarrow> 'g app \<Rightarrow> error + 'g app" where
  "generate_data E sz a =
     (let a1 = a\<lparr>data := generate_random_data E sz\<rparr>
      in (case visualizer a1 of
            None \<Rightarrow> Inr a1
          | Some v \<Rightarrow>
              (case current_config a1 of
                 Inl e \<Rightarrow> Inl e
               | Inr config \<Rightarrow>
                   let xs = data_to_use config (data a1);
                       a2 = emit (VReset (Some xs)) (a1\<lparr>visualizer := Some (v_reset E (Some xs) v)\<rparr>)
                   in Inr (update_status (txt_generated @ str_nat (length xs)) a2))))"

definition change_algorithm :: "'g env \<Rightarrow> ustr \<Rightarrow> 'g app \<Rightarrow> error + 'g app" where
  "change_algorithm E algorithm a =
     (if visualizer a \<noteq> None \<and> current_mode a = Some (ascii ''basic'') then
        let algo_name = (case ALGORITHM_NAMES E algorithm of Some n \<Rightarrow> n | None \<Rightarrow> algorithm)
        in Inr (update_status (txt_algorithm_changed @ algo_name) a)
      else Inr a)"

definition on_sort_complete :: "'g app \<Rightarrow> error + 'g app" where
  "on_sort_complete a =
     (case controls a of
        None \<Rightarrow> Inl AttributeError
      | Some c \<Rightarrow>
          Inr (update_status txt_complete
                 (emit (SetRunningState False) (a\<lparr>controls := Some (c\<lparr>running_state := False\<rparr>)\<rparr>))))"

text \<open>
  \<open>__init__\<close> (lines 57 to 74): no mode and no Visualizer, a dataset of the default size,
  the title and the status the widgets are created with (\<open>created\<close>), then the switch to
  the basic mode.
\<close>

definition created :: "'g env \<Rightarrow> 'g app" where
  "created E =
     \<lparr>mode_configs = MODE_CONFIGS, current_mode = None, visualizer = None,
      data = generate_random_data E DEFAULT_DATA_SIZE, controls = None,
      title_label = title_basic, status_bar = txt_ready, trace = []\<rparr>"

definition init :: "'g env \<Rightarrow> error + 'g app" where
  "init E = switch_to_mode E (ascii ''basic'') (created E)"

text \<open>
  The entry points the menu, the ControlPanel and the Visualizer call, and a run of the
  application as a sequence of them; a run stops at the first exception.
\<close>

datatype intent =
    SwitchMode ustr
  | Start
  | Stop
  | Reset
  | Step
  | Speed int
  | Generate int
  | ChangeAlgorithm ustr
  | SortComplete

fun handle :: "'g env \<Rightarrow> intent \<Rightarrow> 'g app \<Rightarrow> error + 'g app" where
  "handle E (SwitchMode mode) a = switch_to_mode E mode a"
| "handle E Start a = start_sort E a"
| "handle E Stop a = stop_sort E a"
| "handle E Reset a = reset_sort E a"
| "handle E Step a = step_sort E a"
| "handle E (Speed speed) a = change_speed E speed a"
| "handle E (Generate sz) a = generate_data E sz a"
| "handle E (ChangeAlgorithm algorithm) a = change_algorithm E algorithm a"
| "handle E SortComplete a = on_sort_complete a"

fun run :: "'g env \<Rightarrow> intent list \<Rightarrow> 'g app \<Rightarrow> error + 'g app" where
  "run E [] a = Inr a"
| "run E (i # intents) a =
     (case handle E i a of Inl e \<Rightarrow> Inl e | Inr a' \<Rightarrow> run E intents a')"

section \<open>A reference environment\<close>

text \<open>
  Modelled from the spec: one implementation of the capability contract of section 4.2,
  to run the model on concrete inputs. A producer is a handle that records the selector
  and the array it was constructed from; the steps of the algorithms are not part of
  \<open>main.py\<close>, so \<open>step()\<close> and \<open>draw()\<close> leave the state as it is. \<open>sort\<close> is a no-op
  while running, resumes a suspended producer and constructs a fresh one otherwise;
  \<open>stop\<close> suspends a running Visualizer; \<open>can_resume\<close> holds when a producer exists and
  is suspended; \<open>reset\<close> discards the producer, clears the flags and replaces the array
  when it is given one. The modules of the quick and heap modes can be imported, the
  module of the merge mode cannot. The data generator is a fixed pseudo-random sequence
  of the requested length, different for each length.
\<close>

datatype producer = Producer "ustr option" "int list"

definition ref_env :: "producer env" where
  "ref_env = \<lparr>
     v_new = (\<lambda>cls xs. \<lparr>vdata = xs, is_running = False, is_paused = False, step_mode = False,
                delay = 0, current_generator = None, on_complete = None\<rparr>),
     v_draw = (\<lambda>v. v),
     v_stop = (\<lambda>v. if is_running v then v\<lparr>is_running := False, is_paused := True\<rparr> else v),
     v_sort = (\<lambda>alg v.
        if is_running v then v
        else if current_generator v \<noteq> None then v\<lparr>is_running := True, is_paused := False\<rparr>
        else v\<lparr>is_running := True, current_generator := Some (Producer alg (vdata v))\<rparr>),
     v_step = (\<lambda>v. v),
     v_reset = (\<lambda>new v. v\<lparr>vdata := (case new of None \<Rightarrow> vdata v | Some xs \<Rightarrow> xs),
                  is_running := False, is_paused := False, current_generator := None\<rparr>),
     v_set_step_mode = (\<lambda>b v. v\<lparr>step_mode := b\<rparr>),
     v_set_delay = (\<lambda>ms v. v\<lparr>delay := ms\<rparr>),
     v_can_resume = (\<lambda>v. current_generator v \<noteq> None \<and> is_paused v \<and> \<not> is_running v),
     v_run_visualization = (\<lambda>g v. v\<lparr>is_running := True, is_paused := False\<rparr>),
     modules = map_of
       [(ascii ''visualizers.quick_visualizer'', [ascii ''QuickSortVisualizer'']),
        (ascii ''visualizers.heap_visualizer'', [ascii ''HeapSortVisualizer''])],
     generate_random_data = (\<lambda>n. map (\<lambda>i. (int i * 37 + n * 11) mod 100) [0..<nat n]),
     ALGORITHM_NAMES = Map.empty,
     ControlPanel = (\<lambda>has. \<lparr>step_mode_var = False, algorithm_var = ascii ''bubble'',
                       running_state = False\<rparr>),
     winfo_width = 1180, winfo_height = 0\<rparr>"

text \<open>
  The states the examples start from: after the start of the application (basic mode,
  15 elements), after start (a running producer), after start and stop (a suspended
  producer), after a switch to the
  quick mode, after a regeneration of 12 elements in the quick mode, and after two more
  switches between capped modes (heap, then quick).
\<close>

definition app_basic :: "producer app" where
  "app_basic = projr (init ref_env)"

definition app_paused :: "producer app" where
  "app_paused = projr (run ref_env [Start, Stop] app_basic)"

definition app_running :: "producer app" where
  "app_running = projr (start_sort ref_env app_basic)"

definition app_quick :: "producer app" where
  "app_quick = projr (switch_to_mode ref_env (ascii ''quick'') app_basic)"

definition app_regenerated :: "producer app" where
  "app_regenerated = projr (generate_data ref_env 12 app_quick)"




definition app_toured :: "producer app" where
  "app_toured =
     projr (run ref_env [SwitchMode (ascii ''heap''), SwitchMode (ascii ''quick'')]
              app_regenerated)"

definition data12 :: "int list" where
  "data12 = [32, 69, 6, 43, 80, 17, 54, 91, 28, 65, 2, 39]"

definition data15 :: "int list" where
  "data15 = [65, 2, 39, 76, 13, 50, 87, 24, 61, 98, 35, 72, 9, 46, 83]"

section \<open>Basic facts\<close>

lemma emit_fields [simp]:
  "trace (emit e a) = trace a @ [e]"
  "mode_configs (emit e a) = mode_configs a"
  "current_mode (emit e a) = current_mode a"
  "visualizer (emit e a) = visualizer a"
  "data (emit e a) = data a"
  "controls (emit e a) = controls a"
  "title_label (emit e a) = title_label a"
  "status_bar (emit e a) = status_bar a"
  by (simp_all add: emit_def)

lemma update_status_fields [simp]:
  "trace (update_status s a) = trace a @ [SetStatus s]"
  "mode_configs (update_status s a) = mode_configs a"
  "current_mode (update_status s a) = current_mode a"
  "visualizer (update_status s a) = visualizer a"
  "data (update_status s a) = data a"
  "controls (update_status s a) = controls a"
  "title_label (update_status s a) = title_label a"
  "status_bar (update_status s a) = s"
  by (simp_all add: update_status_def)

lemma stop_current_fields [simp]:
  "trace (stop_current E a) = trace a @ (if visualizer a = None then [] else [VStop])"
  "mode_configs (stop_current E a) = mode_configs a"
  "current_mode (stop_current E a) = current_mode a"
  "visualizer (stop_current E a) = map_option (v_stop E) (visualizer a)"
  "data (stop_current E a) = data a"
  "controls (stop_current E a) = controls a"
  "title_label (stop_current E a) = title_label a"
  "status_bar (stop_current E a) = status_bar a"
  by (simp_all add: stop_current_def split: option.splits)

text \<open>The caps of the registry: 8 for quick and merge, 10 for heap, none for basic.\<close>

lemma registry_lookup:
  "MODE_CONFIGS (ascii ''basic'') = Some basic_config"
  "MODE_CONFIGS (ascii ''quick'') = Some quick_config"
  "MODE_CONFIGS (ascii ''merge'') = Some merge_config"
  "MODE_CONFIGS (ascii ''heap'') = Some heap_config"
  by (simp_all add: MODE_CONFIGS_def ascii_def)

lemma registry_titles:
  "title basic_config = title_basic" "title quick_config = title_quick"
  "title merge_config = title_merge" "title heap_config = title_heap"
  by (simp_all add: basic_config_def quick_config_def merge_config_def heap_config_def)

lemma registry_selection:
  "has_algorithm_selection basic_config" "\<not> has_algorithm_selection quick_config"
  "\<not> has_algorithm_selection merge_config" "\<not> has_algorithm_selection heap_config"
  by (simp_all add: basic_config_def quick_config_def merge_config_def heap_config_def)

lemma registry_cases:
  assumes "MODE_CONFIGS mode = Some config"
  shows "(mode = ascii ''basic'' \<and> config = basic_config)
       \<or> (mode = ascii ''quick'' \<and> config = quick_config)
       \<or> (mode = ascii ''merge'' \<and> config = merge_config)
       \<or> (mode = ascii ''heap'' \<and> config = heap_config)"
  using assms by (auto simp: MODE_CONFIGS_def split: if_splits)

lemma mode_names_distinct:
  "ascii ''basic'' \<noteq> ascii ''quick''" "ascii ''basic'' \<noteq> ascii ''merge''"
  "ascii ''basic'' \<noteq> ascii ''heap''" "ascii ''quick'' \<noteq> ascii ''merge''"
  "ascii ''quick'' \<noteq> ascii ''heap''" "ascii ''merge'' \<noteq> ascii ''heap''"
  by (simp_all add: ascii_def)

lemma data_to_use_registry:
  "data_to_use basic_config xs = xs"
  "data_to_use quick_config xs = take 8 xs"
  "data_to_use merge_config xs = take 8 xs"
  "data_to_use heap_config xs = take 10 xs"
  by (simp_all add: data_to_use_def slice_to_def basic_config_def quick_config_def
      merge_config_def heap_config_def QUICK_SORT_MAX_SIZE_def MERGE_SORT_MAX_SIZE_def
      HEAP_SORT_MAX_SIZE_def)

text \<open>A switch to a registered mode whose class loads, field by field.\<close>

lemma switch_to_mode_loaded:
  assumes "mode_configs a mode = Some config" and "import_class E config = Inr cls"
  shows "\<exists>a'. switch_to_mode E mode a = Inr a'
     \<and> mode_configs a' = mode_configs a
     \<and> current_mode a' = Some mode
     \<and> data a' = data a
     \<and> controls a' = Some (ControlPanel E (has_algorithm_selection config))
     \<and> title_label a' = title config
     \<and> visualizer a' =
         Some (v_draw E ((v_new E cls (data_to_use config (data a)))
                 \<lparr>on_complete := Some On_sort_complete\<rparr>))
     \<and> status_bar a' =
         title config @ txt_data_size @ str_nat (length (data_to_use config (data a)))
     \<and> trace a' = trace (stop_current E a) @
         [SetTitle (title config), ClearControlFrame,
          NewControlPanel (has_algorithm_selection config),
          VNew cls (data_to_use config (data a)), VSetOnComplete, VDraw,
          SetStatus (title config @ txt_data_size
                       @ str_nat (length (data_to_use config (data a))))]"
  using assms by (simp add: switch_to_mode_def Let_def dom_def)

text \<open>A switch to a registered mode whose module cannot be imported, field by field.\<close>

lemma switch_to_mode_not_loaded:
  assumes "mode_configs a mode = Some config" and "import_class E config = Inl ImportError"
  shows "\<exists>a'. switch_to_mode E mode a = Inr a'
     \<and> mode_configs a' = mode_configs a
     \<and> current_mode a' = Some mode
     \<and> data a' = data a
     \<and> controls a' = controls a
     \<and> title_label a' = title config
     \<and> visualizer a' = map_option (v_stop E) (visualizer a)
     \<and> status_bar a' = title config @ txt_not_implemented
     \<and> trace a' = trace (stop_current E a) @
         [SetTitle (title config), ClearControlFrame, CanvasDeleteAll,
          CanvasCreateText (half_or (winfo_width E) 400) (half_or (winfo_height E) 250)
            (title config @ txt_placeholder),
          SetStatus (title config @ txt_not_implemented)]"
  using assms by (simp add: switch_to_mode_def Let_def dom_def show_not_implemented_def)

section \<open>The example states\<close>

lemmas handler_defs = switch_to_mode_def stop_current_def import_class_def
  show_not_implemented_def update_status_def emit_def data_to_use_def slice_to_def half_or_def
  current_config_def resume_visualization_def start_sort_def stop_sort_def reset_sort_def
  step_sort_def change_speed_def generate_data_def change_algorithm_def on_sort_complete_def
  init_def created_def

lemmas registry_defs = MODE_CONFIGS_def basic_config_def quick_config_def merge_config_def
  heap_config_def QUICK_SORT_MAX_SIZE_def MERGE_SORT_MAX_SIZE_def HEAP_SORT_MAX_SIZE_def
  DEFAULT_DATA_SIZE_def ascii_def

lemma ref_env_data15: "generate_random_data ref_env 15 = data15"
  by (simp add: ref_env_def data15_def upt_rec)

lemma ref_env_imports:
  "import_class ref_env basic_config = Inr (ascii ''BarVisualizer'')"
  "import_class ref_env quick_config = Inr (ascii ''QuickSortVisualizer'')"
  "import_class ref_env merge_config = Inl ImportError"
  "import_class ref_env heap_config = Inr (ascii ''HeapSortVisualizer'')"
  by (simp_all add: import_class_def ref_env_def registry_defs)

lemma init_ref_env: "init ref_env = Inr app_basic"
  by (simp add: app_basic_def handler_defs registry_defs Let_def dom_def)

lemma app_basic_fields:
  "mode_configs app_basic = MODE_CONFIGS"
  "current_mode app_basic = Some (ascii ''basic'')"
  "data app_basic = data15"
  "title_label app_basic = title_basic"
  "status_bar app_basic = title_basic @ txt_data_size @ ascii ''15''"
  "controls app_basic =
     Some \<lparr>step_mode_var = False, algorithm_var = ascii ''bubble'', running_state = False\<rparr>"
  "visualizer app_basic =
     Some \<lparr>vdata = data15, is_running = False, is_paused = False, step_mode = False, delay = 0,
           current_generator = None, on_complete = Some On_sort_complete\<rparr>"
  "trace app_basic =
     [SetTitle title_basic, ClearControlFrame, NewControlPanel True,
      VNew (ascii ''BarVisualizer'') data15, VSetOnComplete, VDraw,
      SetStatus (title_basic @ txt_data_size @ ascii ''15'')]"
  by (simp_all add: app_basic_def handler_defs registry_defs Let_def dom_def
      ref_env_def data15_def upt_rec str_nat.simps)

lemma run_start_stop: "run ref_env [Start, Stop] app_basic = Inr app_paused"
  by (simp add: app_paused_def app_basic_fields handler_defs registry_defs Let_def ref_env_def)

lemma app_paused_fields:
  "mode_configs app_paused = MODE_CONFIGS"
  "current_mode app_paused = Some (ascii ''basic'')"
  "data app_paused = data15"
  "controls app_paused =
     Some \<lparr>step_mode_var = False, algorithm_var = ascii ''bubble'', running_state = False\<rparr>"
  "visualizer app_paused =
     Some \<lparr>vdata = data15, is_running = False, is_paused = True, step_mode = False, delay = 0,
           current_generator = Some (Producer (Some (ascii ''bubble'')) data15),
           on_complete = Some On_sort_complete\<rparr>"
  by (simp_all add: app_paused_def app_basic_fields handler_defs registry_defs Let_def ref_env_def)

lemma app_paused_trace:
  "trace app_paused = trace app_basic @
     [VSetStepMode False, SetRunningState True, VSort (Some (ascii ''bubble'')),
      SetStatus (txt_running @ ascii ''bubble''), VStop, SetRunningState False,
      SetStatus txt_paused]"
  by (simp add: app_paused_def app_basic_fields handler_defs registry_defs Let_def ref_env_def)

lemma switch_quick: "switch_to_mode ref_env (ascii ''quick'') app_basic = Inr app_quick"
  by (simp add: app_quick_def app_basic_fields handler_defs registry_defs Let_def dom_def
      ref_env_def)

lemma app_quick_fields:
  "mode_configs app_quick = MODE_CONFIGS"
  "current_mode app_quick = Some (ascii ''quick'')"
  "data app_quick = data15"
  "title_label app_quick = title_quick"
  "status_bar app_quick = title_quick @ txt_data_size @ ascii ''8''"
  "controls app_quick =
     Some \<lparr>step_mode_var = False, algorithm_var = ascii ''bubble'', running_state = False\<rparr>"
  "visualizer app_quick =
     Some \<lparr>vdata = [65, 2, 39, 76, 13, 50, 87, 24], is_running = False, is_paused = False,
           step_mode = False, delay = 0, current_generator = None,
           on_complete = Some On_sort_complete\<rparr>"
  by (simp_all add: app_quick_def app_basic_fields handler_defs registry_defs Let_def dom_def
      ref_env_def data15_def str_nat.simps)

lemma app_quick_trace:
  "trace app_quick = trace app_basic @
     [VStop, SetTitle title_quick, ClearControlFrame, NewControlPanel False,
      VNew (ascii ''QuickSortVisualizer'') [65, 2, 39, 76, 13, 50, 87, 24],
      VSetOnComplete, VDraw, SetStatus (title_quick @ txt_data_size @ ascii ''8'')]"
  by (simp add: app_quick_def app_basic_fields handler_defs registry_defs Let_def dom_def
      ref_env_def data15_def str_nat.simps)

lemma ref_env_data12: "generate_random_data ref_env 12 = data12"
  by (simp add: ref_env_def data12_def upt_rec)

lemma generate_quick: "generate_data ref_env 12 app_quick = Inr app_regenerated"
  by (simp add: app_regenerated_def app_quick_fields generate_data_def current_config_def
      registry_lookup Let_def)

lemma app_regenerated_fields:
  "mode_configs app_regenerated = MODE_CONFIGS"
  "current_mode app_regenerated = Some (ascii ''quick'')"
  "data app_regenerated = data12"
  "status_bar app_regenerated = txt_generated @ ascii ''8''"
  "visualizer app_regenerated =
     Some \<lparr>vdata = [32, 69, 6, 43, 80, 17, 54, 91], is_running = False, is_paused = False,
           step_mode = False, delay = 0, current_generator = None,
           on_complete = Some On_sort_complete\<rparr>"
  by (simp_all add: app_regenerated_def app_quick_fields generate_data_def current_config_def
      registry_lookup Let_def data_to_use_registry ref_env_data12, simp_all add: ref_env_def
      data12_def str_nat.simps ascii_def)

lemma start_basic: "start_sort ref_env app_basic = Inr app_running"
  by (simp add: app_running_def app_basic_fields handler_defs registry_defs Let_def ref_env_def)

lemma app_running_fields:
  "mode_configs app_running = MODE_CONFIGS"
  "current_mode app_running = Some (ascii ''basic'')"
  "data app_running = data15"
  "status_bar app_running = txt_running @ ascii ''bubble''"
  "controls app_running =
     Some \<lparr>step_mode_var = False, algorithm_var = ascii ''bubble'', running_state = True\<rparr>"
  "visualizer app_running =
     Some \<lparr>vdata = data15, is_running = True, is_paused = False, step_mode = False, delay = 0,
           current_generator = Some (Producer (Some (ascii ''bubble'')) data15),
           on_complete = Some On_sort_complete\<rparr>"
  by (simp_all add: app_running_def app_basic_fields handler_defs registry_defs Let_def ref_env_def)

lemma run_tour:
  "run ref_env [SwitchMode (ascii ''heap''), SwitchMode (ascii ''quick'')] app_regenerated
     = Inr app_toured"
  by (simp add: app_toured_def app_regenerated_fields handler_defs registry_defs Let_def dom_def
      ref_env_def)

lemma app_toured_fields:
  "current_mode app_toured = Some (ascii ''quick'')"
  "visualizer app_toured =
     Some \<lparr>vdata = [32, 69, 6, 43, 80, 17, 54, 91], is_running = False, is_paused = False,
           step_mode = False, delay = 0, current_generator = None,
           on_complete = Some On_sort_complete\<rparr>"
  by (simp_all add: app_toured_def app_regenerated_fields handler_defs registry_defs Let_def
      dom_def ref_env_def data12_def)




section \<open>Unknown modes\<close>

text \<open>
  C3: a switch to a mode identifier that is not a key of the registry returns the state
  it was given: the mode, the Visualizer, the dataset, the title, the controls and the
  status are the same, and the trace is the same, so no \<open>stop()\<close> (and no other call)
  was issued.
\<close>

theorem switch_to_unknown_mode_is_noop:
  "mode_configs a mode = None \<Longrightarrow> switch_to_mode E mode a = Inr a"
  by (simp add: switch_to_mode_def dom_def)

theorem switch_to_unknown_mode_is_noop_witness:
  "mode_configs app_paused (ascii ''bogo'') = None
   \<and> switch_to_mode ref_env (ascii ''bogo'') app_paused = Inr app_paused"
proof -
  have unknown: "mode_configs app_paused (ascii ''bogo'') = None"
    by (simp add: app_paused_fields registry_defs)
  from unknown switch_to_unknown_mode_is_noop [OF unknown, of ref_env] show ?thesis
    by simp
qed

section \<open>The handlers without a Visualizer\<close>

text \<open>
  C9: while the Orchestrator holds no Visualizer, the handlers of start, stop, reset,
  step and speed change return the state unchanged and raise nothing (also when
  \<open>self.controls\<close> is not set and no mode is current, as before the first switch).
\<close>

theorem handlers_without_visualizer_are_noops:
  "visualizer a = None \<Longrightarrow>
     start_sort E a = Inr a \<and> stop_sort E a = Inr a \<and> reset_sort E a = Inr a
     \<and> step_sort E a = Inr a \<and> change_speed E speed a = Inr a"
  by (simp add: start_sort_def stop_sort_def reset_sort_def step_sort_def change_speed_def)

theorem handlers_without_visualizer_are_noops_witness:
  "visualizer (created ref_env) = None \<and> controls (created ref_env) = None
   \<and> current_mode (created ref_env) = None
   \<and> start_sort ref_env (created ref_env) = Inr (created ref_env)
   \<and> stop_sort ref_env (created ref_env) = Inr (created ref_env)
   \<and> reset_sort ref_env (created ref_env) = Inr (created ref_env)
   \<and> step_sort ref_env (created ref_env) = Inr (created ref_env)
   \<and> change_speed ref_env 250 (created ref_env) = Inr (created ref_env)"
proof -
  have none: "visualizer (created ref_env) = None"
    by (simp add: created_def)
  from handlers_without_visualizer_are_noops [OF none, of ref_env 250] show ?thesis
    by (simp add: created_def)
qed

section \<open>The registry is only read\<close>

lemma switch_to_mode_mode_configs:
  "switch_to_mode E mode a = Inr a' \<Longrightarrow> mode_configs a' = mode_configs a"
  by (auto simp: switch_to_mode_def Let_def show_not_implemented_def
      split: if_splits option.splits sum.splits error.splits)

lemma start_sort_mode_configs:
  "start_sort E a = Inr a' \<Longrightarrow> mode_configs a' = mode_configs a"
  by (auto simp: start_sort_def Let_def resume_visualization_def current_config_def
      split: if_splits option.splits sum.splits)

lemma handle_mode_configs:
  "handle E i a = Inr a' \<Longrightarrow> mode_configs a' = mode_configs a"
proof (cases i)
  case (SwitchMode mode)
  assume "handle E i a = Inr a'"
  with SwitchMode show ?thesis by (simp add: switch_to_mode_mode_configs)
next
  case Start
  assume "handle E i a = Inr a'"
  with Start show ?thesis by (simp add: start_sort_mode_configs)
next
  case Stop
  assume "handle E i a = Inr a'"
  with Stop show ?thesis
    by (auto simp: stop_sort_def Let_def split: option.splits)
next
  case Reset
  assume "handle E i a = Inr a'"
  with Reset show ?thesis
    by (auto simp: reset_sort_def Let_def split: option.splits)
next
  case Step
  assume "handle E i a = Inr a'"
  with Step show ?thesis
    by (auto simp: step_sort_def split: option.splits)
next
  case (Speed speed)
  assume "handle E i a = Inr a'"
  with Speed show ?thesis
    by (auto simp: change_speed_def split: option.splits)
next
  case (Generate sz)
  assume "handle E i a = Inr a'"
  with Generate show ?thesis
    by (auto simp: generate_data_def Let_def current_config_def split: option.splits sum.splits)
next
  case (ChangeAlgorithm algorithm)
  assume "handle E i a = Inr a'"
  with ChangeAlgorithm show ?thesis
    by (auto simp: change_algorithm_def Let_def split: if_splits)
next
  case SortComplete
  assume "handle E i a = Inr a'"
  with SortComplete show ?thesis
    by (auto simp: on_sort_complete_def split: option.splits)
qed

lemma run_mode_configs:
  "run E intents a = Inr a' \<Longrightarrow> mode_configs a' = mode_configs a"
proof (induction intents arbitrary: a)
  case Nil
  then show ?case by simp
next
  case (Cons i intents)
  from Cons.prems obtain a1 where step: "handle E i a = Inr a1" and rest: "run E intents a1 = Inr a'"
    by (auto split: sum.splits)
  from Cons.IH [OF rest] handle_mode_configs [OF step] show ?case by simp
qed

text \<open>
  C8: the registry is the table \<open>MODE_CONFIGS\<close> when the application has started, and
  no sequence of operations of the Orchestrator (mode switches, start, stop, reset, step,
  speed change, data regeneration, algorithm change, completion) changes the table or an
  entry of it: the operations only look keys up.
\<close>

theorem registry_is_never_mutated:
  "(init E = Inr a0 \<longrightarrow> mode_configs a0 = MODE_CONFIGS)
   \<and> (run E intents a = Inr a' \<longrightarrow> mode_configs a' = mode_configs a)"
proof
  show "init E = Inr a0 \<longrightarrow> mode_configs a0 = MODE_CONFIGS"
  proof
    assume "init E = Inr a0"
    then have "mode_configs a0 = mode_configs (created E)"
      unfolding init_def by (rule switch_to_mode_mode_configs)
    then show "mode_configs a0 = MODE_CONFIGS" by (simp add: created_def)
  qed
  show "run E intents a = Inr a' \<longrightarrow> mode_configs a' = mode_configs a"
    by (simp add: run_mode_configs)
qed

theorem registry_is_never_mutated_witness:
  "init ref_env = Inr app_basic \<and> mode_configs app_basic = MODE_CONFIGS
   \<and> run ref_env [Start, Stop] app_basic = Inr app_paused
   \<and> mode_configs app_paused = mode_configs app_basic"
  using registry_is_never_mutated [of ref_env app_basic "[Start, Stop]" app_basic app_paused]
    init_ref_env run_start_stop
  by simp

section \<open>The dataset handed to a Visualizer\<close>

lemma generate_data_with_visualizer:
  assumes "visualizer a = Some v" and "current_mode a = Some mode"
    and "mode_configs a mode = Some config"
  shows "\<exists>a'. generate_data E sz a = Inr a'
     \<and> mode_configs a' = mode_configs a
     \<and> current_mode a' = current_mode a
     \<and> controls a' = controls a
     \<and> title_label a' = title_label a
     \<and> data a' = generate_random_data E sz
     \<and> visualizer a' =
         Some (v_reset E (Some (data_to_use config (generate_random_data E sz))) v)
     \<and> status_bar a' =
         txt_generated @ str_nat (length (data_to_use config (generate_random_data E sz)))
     \<and> trace a' = trace a @
         [VReset (Some (data_to_use config (generate_random_data E sz))),
          SetStatus (txt_generated
                       @ str_nat (length (data_to_use config (generate_random_data E sz))))]"
  using assms by (simp add: generate_data_def current_config_def Let_def)

lemma data_to_use_by_mode:
  assumes "MODE_CONFIGS mode = Some config"
  shows "data_to_use config xs =
     (if mode = ascii ''quick'' \<or> mode = ascii ''merge'' then take 8 xs
      else if mode = ascii ''heap'' then take 10 xs
      else xs)"
  using registry_cases [OF assms] mode_names_distinct
  by (auto simp: data_to_use_registry)

text \<open>
  C1: in a state whose registry is \<open>MODE_CONFIGS\<close>, a switch to a registered mode whose
  class loads constructs the Visualizer from \<open>data_to_use config (data a)\<close>, and a data
  regeneration with a Visualizer in that mode resets it with \<open>data_to_use config\<close> of
  the new dataset; this array is the first 8 elements in the quick and merge modes, the
  first 10 in the heap mode and the whole dataset in the basic mode. A dataset of 15
  elements gives the quick mode exactly its first 8.
\<close>

theorem dataset_is_truncated_to_the_cap:
  assumes reg: "mode_configs a = MODE_CONFIGS" and cfg: "MODE_CONFIGS mode = Some config"
  shows "(\<forall>cls. import_class E config = Inr cls \<longrightarrow>
            (\<exists>a'. switch_to_mode E mode a = Inr a'
               \<and> visualizer a' =
                   Some (v_draw E ((v_new E cls (data_to_use config (data a)))
                           \<lparr>on_complete := Some On_sort_complete\<rparr>))
               \<and> trace a' = trace (stop_current E a) @
                   [SetTitle (title config), ClearControlFrame,
                    NewControlPanel (has_algorithm_selection config),
                    VNew cls (data_to_use config (data a)), VSetOnComplete, VDraw,
                    SetStatus (title config @ txt_data_size
                                 @ str_nat (length (data_to_use config (data a))))]))
       \<and> (\<forall>v. visualizer a = Some v \<and> current_mode a = Some mode \<longrightarrow>
            (\<exists>a'. generate_data E sz a = Inr a'
               \<and> visualizer a' =
                   Some (v_reset E (Some (data_to_use config (generate_random_data E sz))) v)
               \<and> trace a' = trace a @
                   [VReset (Some (data_to_use config (generate_random_data E sz))),
                    SetStatus (txt_generated @ str_nat
                      (length (data_to_use config (generate_random_data E sz))))]))
       \<and> data_to_use config xs =
            (if mode = ascii ''quick'' \<or> mode = ascii ''merge'' then take 8 xs
             else if mode = ascii ''heap'' then take 10 xs
             else xs)
       \<and> (mode = ascii ''quick'' \<and> length xs = 15 \<longrightarrow>
            data_to_use config xs = take 8 xs \<and> length (data_to_use config xs) = 8)"
proof (intro conjI allI impI)
  fix cls
  assume "import_class E config = Inr cls"
  with reg cfg switch_to_mode_loaded [of a mode config E cls]
  show "\<exists>a'. switch_to_mode E mode a = Inr a'
     \<and> visualizer a' =
         Some (v_draw E ((v_new E cls (data_to_use config (data a)))
                 \<lparr>on_complete := Some On_sort_complete\<rparr>))
     \<and> trace a' = trace (stop_current E a) @
         [SetTitle (title config), ClearControlFrame,
          NewControlPanel (has_algorithm_selection config),
          VNew cls (data_to_use config (data a)), VSetOnComplete, VDraw,
          SetStatus (title config @ txt_data_size
                       @ str_nat (length (data_to_use config (data a))))]"
    by auto
next
  fix v
  assume "visualizer a = Some v \<and> current_mode a = Some mode"
  with reg cfg generate_data_with_visualizer [of a v mode config E sz]
  show "\<exists>a'. generate_data E sz a = Inr a'
     \<and> visualizer a' =
         Some (v_reset E (Some (data_to_use config (generate_random_data E sz))) v)
     \<and> trace a' = trace a @
         [VReset (Some (data_to_use config (generate_random_data E sz))),
          SetStatus (txt_generated @ str_nat
            (length (data_to_use config (generate_random_data E sz))))]"
    by auto
next
  show "data_to_use config xs =
     (if mode = ascii ''quick'' \<or> mode = ascii ''merge'' then take 8 xs
      else if mode = ascii ''heap'' then take 10 xs
      else xs)"
    by (rule data_to_use_by_mode [OF cfg])
next
  assume "mode = ascii ''quick'' \<and> length xs = 15"
  then show "data_to_use config xs = take 8 xs"
    by (simp add: data_to_use_by_mode [OF cfg])
next
  assume "mode = ascii ''quick'' \<and> length xs = 15"
  then show "length (data_to_use config xs) = 8"
    by (simp add: data_to_use_by_mode [OF cfg])
qed

theorem dataset_is_truncated_to_the_cap_witness:
  "mode_configs app_basic = MODE_CONFIGS
   \<and> MODE_CONFIGS (ascii ''quick'') = Some quick_config
   \<and> import_class ref_env quick_config = Inr (ascii ''QuickSortVisualizer'')
   \<and> length (data app_basic) = 15
   \<and> switch_to_mode ref_env (ascii ''quick'') app_basic = Inr app_quick
   \<and> map_option vdata (visualizer app_quick) = Some (take 8 (data app_basic))
   \<and> data_to_use quick_config (data app_basic) = [65, 2, 39, 76, 13, 50, 87, 24]
   \<and> length (data_to_use quick_config (data app_basic)) = 8"
proof -
  have reg: "mode_configs app_basic = MODE_CONFIGS"
    by (simp add: app_basic_fields)
  have cfg: "MODE_CONFIGS (ascii ''quick'') = Some quick_config"
    by (simp add: registry_lookup)
  have len: "length (data app_basic) = 15"
    by (simp add: app_basic_fields data15_def)
  from dataset_is_truncated_to_the_cap [OF reg cfg, of ref_env 12 "data app_basic"] len
  have "data_to_use quick_config (data app_basic) = take 8 (data app_basic)"
    and "length (data_to_use quick_config (data app_basic)) = 8"
    by simp_all
  with reg cfg len show ?thesis
    by (simp add: ref_env_imports switch_quick app_quick_fields app_basic_fields data15_def)
qed

section \<open>The master dataset\<close>

lemma generate_data_stores:
  "generate_data E sz a = Inr a' \<Longrightarrow>
     data a' = generate_random_data E sz \<and> mode_configs a' = mode_configs a"
  by (auto simp: generate_data_def current_config_def Let_def split: option.splits sum.splits)

lemma import_basic: "import_class E basic_config = Inr (ascii ''BarVisualizer'')"
  by (simp add: import_class_def basic_config_def)

text \<open>Only a data regeneration writes the field \<open>data\<close>.\<close>

lemma switch_to_mode_data:
  "switch_to_mode E mode a = Inr a' \<Longrightarrow> data a' = data a"
  by (auto simp: switch_to_mode_def Let_def show_not_implemented_def
      split: if_splits option.splits sum.splits error.splits)

lemma start_sort_data:
  "start_sort E a = Inr a' \<Longrightarrow> data a' = data a"
  by (auto simp: start_sort_def Let_def resume_visualization_def current_config_def
      split: if_splits option.splits sum.splits)

lemma handle_data:
  assumes "handle E i a = Inr a'" and "\<forall>n. i \<noteq> Generate n"
  shows "data a' = data a"
proof (cases i)
  case (SwitchMode mode)
  with assms show ?thesis by (simp add: switch_to_mode_data)
next
  case Start
  with assms show ?thesis by (simp add: start_sort_data)
next
  case Stop
  with assms show ?thesis
    by (auto simp: stop_sort_def Let_def split: option.splits)
next
  case Reset
  with assms show ?thesis
    by (auto simp: reset_sort_def Let_def split: option.splits)
next
  case Step
  with assms show ?thesis
    by (auto simp: step_sort_def split: option.splits)
next
  case (Speed speed)
  with assms show ?thesis
    by (auto simp: change_speed_def split: option.splits)
next
  case (Generate sz)
  with assms show ?thesis by simp
next
  case (ChangeAlgorithm algorithm)
  with assms show ?thesis
    by (auto simp: change_algorithm_def Let_def split: if_splits)
next
  case SortComplete
  with assms show ?thesis
    by (auto simp: on_sort_complete_def split: option.splits)
qed

lemma run_data:
  "run E intents a = Inr a' \<Longrightarrow> \<forall>n. Generate n \<notin> set intents \<Longrightarrow> data a' = data a"
proof (induction intents arbitrary: a)
  case Nil
  then show ?case by simp
next
  case (Cons i intents)
  from Cons.prems(1) obtain a1 where step: "handle E i a = Inr a1"
    and rest: "run E intents a1 = Inr a'"
    by (auto split: sum.splits)
  from Cons.prems(2) have here: "\<forall>n. i \<noteq> Generate n"
    and later: "\<forall>n. Generate n \<notin> set intents"
    by auto
  from Cons.IH [OF rest later] handle_data [OF step here] show ?case by simp
qed

text \<open>
  C10: a data regeneration stores the whole new dataset in the field \<open>data\<close> of the
  Orchestrator; the Visualizer of the current mode is reset with \<open>data_to_use config\<close>
  of it, the truncated copy. No mode switch, into a capped mode or any other, changes
  \<open>data\<close>, and neither does any run of operations without a regeneration: after such a
  run from the regenerated state, \<open>data\<close> is still the whole new dataset, and a switch
  to the basic mode constructs its Visualizer from the whole of it.
\<close>

theorem master_dataset_is_not_truncated:
  assumes reg: "mode_configs a = MODE_CONFIGS" and gen: "generate_data E sz a = Inr a'"
  shows "data a' = generate_random_data E sz
     \<and> (\<forall>v mode config.
           visualizer a = Some v \<and> current_mode a = Some mode \<and> MODE_CONFIGS mode = Some config
           \<longrightarrow> visualizer a' =
                 Some (v_reset E (Some (data_to_use config (generate_random_data E sz))) v))
     \<and> (\<forall>s mode s'. switch_to_mode E mode s = Inr s' \<longrightarrow> data s' = data s)
     \<and> (\<forall>intents b.
           run E intents a' = Inr b \<and> (\<forall>n. Generate n \<notin> set intents) \<longrightarrow>
             data b = generate_random_data E sz
           \<and> (\<exists>a''. switch_to_mode E (ascii ''basic'') b = Inr a''
                 \<and> data a'' = generate_random_data E sz
                 \<and> visualizer a'' =
                     Some (v_draw E
                       ((v_new E (ascii ''BarVisualizer'') (generate_random_data E sz))
                          \<lparr>on_complete := Some On_sort_complete\<rparr>))
                 \<and> trace a'' = trace (stop_current E b) @
                     [SetTitle title_basic, ClearControlFrame, NewControlPanel True,
                      VNew (ascii ''BarVisualizer'') (generate_random_data E sz),
                      VSetOnComplete, VDraw,
                      SetStatus (title_basic @ txt_data_size
                                   @ str_nat (length (generate_random_data E sz)))]))
     \<and> (\<exists>a''. switch_to_mode E (ascii ''basic'') a' = Inr a''
           \<and> data a'' = generate_random_data E sz
           \<and> visualizer a'' =
               Some (v_draw E ((v_new E (ascii ''BarVisualizer'') (generate_random_data E sz))
                       \<lparr>on_complete := Some On_sort_complete\<rparr>))
           \<and> trace a'' = trace (stop_current E a') @
               [SetTitle title_basic, ClearControlFrame, NewControlPanel True,
                VNew (ascii ''BarVisualizer'') (generate_random_data E sz), VSetOnComplete,
                VDraw,
                SetStatus (title_basic @ txt_data_size
                             @ str_nat (length (generate_random_data E sz)))])"
proof -
  from generate_data_stores [OF gen]
  have stored: "data a' = generate_random_data E sz"
    and reg': "mode_configs a' = MODE_CONFIGS"
    using reg by simp_all
  have to_basic: "\<exists>a''. switch_to_mode E (ascii ''basic'') b = Inr a''
       \<and> data a'' = generate_random_data E sz
       \<and> visualizer a'' =
           Some (v_draw E ((v_new E (ascii ''BarVisualizer'') (generate_random_data E sz))
                   \<lparr>on_complete := Some On_sort_complete\<rparr>))
       \<and> trace a'' = trace (stop_current E b) @
           [SetTitle title_basic, ClearControlFrame, NewControlPanel True,
            VNew (ascii ''BarVisualizer'') (generate_random_data E sz), VSetOnComplete,
            VDraw,
            SetStatus (title_basic @ txt_data_size
                         @ str_nat (length (generate_random_data E sz)))]"
    if "mode_configs b = MODE_CONFIGS" and "data b = generate_random_data E sz" for b
  proof -
    from that have cfg: "mode_configs b (ascii ''basic'') = Some basic_config"
      by (simp add: registry_lookup)
    from switch_to_mode_loaded [OF cfg import_basic, of E] that show ?thesis
      by (auto simp: data_to_use_registry registry_titles registry_selection)
  qed
  have truncated: "\<forall>v mode config.
      visualizer a = Some v \<and> current_mode a = Some mode \<and> MODE_CONFIGS mode = Some config
      \<longrightarrow> visualizer a' =
            Some (v_reset E (Some (data_to_use config (generate_random_data E sz))) v)"
  proof (intro allI impI)
    fix v mode config
    assume "visualizer a = Some v \<and> current_mode a = Some mode
      \<and> MODE_CONFIGS mode = Some config"
    with reg generate_data_with_visualizer [of a v mode config E sz] gen
    show "visualizer a' =
       Some (v_reset E (Some (data_to_use config (generate_random_data E sz))) v)"
      by auto
  qed
  have switches: "\<forall>s mode s'. switch_to_mode E mode s = Inr s' \<longrightarrow> data s' = data s"
    by (simp add: switch_to_mode_data)
  have runs: "\<forall>intents b.
      run E intents a' = Inr b \<and> (\<forall>n. Generate n \<notin> set intents) \<longrightarrow>
        data b = generate_random_data E sz
      \<and> (\<exists>a''. switch_to_mode E (ascii ''basic'') b = Inr a''
            \<and> data a'' = generate_random_data E sz
            \<and> visualizer a'' =
                Some (v_draw E
                  ((v_new E (ascii ''BarVisualizer'') (generate_random_data E sz))
                     \<lparr>on_complete := Some On_sort_complete\<rparr>))
            \<and> trace a'' = trace (stop_current E b) @
                [SetTitle title_basic, ClearControlFrame, NewControlPanel True,
                 VNew (ascii ''BarVisualizer'') (generate_random_data E sz),
                 VSetOnComplete, VDraw,
                 SetStatus (title_basic @ txt_data_size
                              @ str_nat (length (generate_random_data E sz)))])"
  proof (intro allI impI)
    fix intents b
    assume "run E intents a' = Inr b \<and> (\<forall>n. Generate n \<notin> set intents)"
    then have ran: "run E intents a' = Inr b" and quiet: "\<forall>n. Generate n \<notin> set intents"
      by simp_all
    from run_data [OF ran quiet] stored have kept: "data b = generate_random_data E sz"
      by simp
    from run_mode_configs [OF ran] reg' have "mode_configs b = MODE_CONFIGS"
      by simp
    from to_basic [OF this kept] kept
    show "data b = generate_random_data E sz
      \<and> (\<exists>a''. switch_to_mode E (ascii ''basic'') b = Inr a''
            \<and> data a'' = generate_random_data E sz
            \<and> visualizer a'' =
                Some (v_draw E
                  ((v_new E (ascii ''BarVisualizer'') (generate_random_data E sz))
                     \<lparr>on_complete := Some On_sort_complete\<rparr>))
            \<and> trace a'' = trace (stop_current E b) @
                [SetTitle title_basic, ClearControlFrame, NewControlPanel True,
                 VNew (ascii ''BarVisualizer'') (generate_random_data E sz),
                 VSetOnComplete, VDraw,
                 SetStatus (title_basic @ txt_data_size
                              @ str_nat (length (generate_random_data E sz)))])"
      by simp
  qed
  from stored truncated switches runs to_basic [OF reg' stored] show ?thesis
    by (intro conjI)
qed

theorem master_dataset_is_not_truncated_witness:
  "mode_configs app_quick = MODE_CONFIGS
   \<and> generate_data ref_env 12 app_quick = Inr app_regenerated
   \<and> current_mode app_quick = Some (ascii ''quick'')
   \<and> data app_regenerated = data12
   \<and> map_option vdata (visualizer app_regenerated) = Some (take 8 data12)
   \<and> run ref_env [SwitchMode (ascii ''heap''), SwitchMode (ascii ''quick'')] app_regenerated
       = Inr app_toured
   \<and> current_mode app_toured = Some (ascii ''quick'')
   \<and> map_option vdata (visualizer app_toured) = Some (take 8 data12)
   \<and> data app_toured = data12
   \<and> map_sum id data (switch_to_mode ref_env (ascii ''basic'') app_toured) = Inr data12
   \<and> map_sum id (map_option vdata \<circ> visualizer)
        (switch_to_mode ref_env (ascii ''basic'') app_toured) = Inr (Some data12)
   \<and> data app_basic = data15
   \<and> map_sum id data (switch_to_mode ref_env (ascii ''quick'') app_basic) = Inr data15"
proof -
  have reg: "mode_configs app_quick = MODE_CONFIGS"
    by (simp add: app_quick_fields)
  have quiet:
    "\<forall>n. Generate n \<notin> set [SwitchMode (ascii ''heap''), SwitchMode (ascii ''quick'')]"
    by simp
  note inst = master_dataset_is_not_truncated [OF reg generate_quick]
  from inst run_tour quiet
  have toured: "data app_toured = generate_random_data ref_env 12"
    by blast
  from inst run_tour quiet
  obtain a'' where "switch_to_mode ref_env (ascii ''basic'') app_toured = Inr a''"
    and "data a'' = generate_random_data ref_env 12"
    and "visualizer a'' =
      Some (v_draw ref_env ((v_new ref_env (ascii ''BarVisualizer'')
              (generate_random_data ref_env 12))\<lparr>on_complete := Some On_sort_complete\<rparr>))"
    by blast
  then have basic:
    "map_sum id data (switch_to_mode ref_env (ascii ''basic'') app_toured) = Inr data12"
    "map_sum id (map_option vdata \<circ> visualizer)
       (switch_to_mode ref_env (ascii ''basic'') app_toured) = Inr (Some data12)"
    by (simp_all add: ref_env_data12, simp add: ref_env_def)
  from inst switch_quick have "data app_quick = data app_basic"
    by blast
  with toured basic show ?thesis
    by (simp add: reg generate_quick run_tour app_quick_fields app_regenerated_fields
        app_toured_fields app_basic_fields switch_quick ref_env_data12 del: run.simps,
        simp add: data12_def)
qed

section \<open>The size on the status line\<close>

text \<open>
  C7: let the Visualizer keep the array it is given (the constructor and \<open>reset\<close> with an
  array store that array, \<open>draw\<close> does not change it), as section 4.2 of the specification
  has it. Then after a switch to a registered mode whose class loads, after a reset,
  after a data regeneration and after the start of the application, the status line
  is the text of that operation followed by the length of the array of the Visualizer
  the Orchestrator holds.
\<close>

theorem status_size_is_length_of_visualizer_array:
  assumes new: "\<And>cls xs. vdata (v_new E cls xs) = xs"
    and draw: "\<And>v. vdata (v_draw E v) = vdata v"
    and reset: "\<And>xs v. vdata (v_reset E (Some xs) v) = xs"
  shows "(\<forall>config cls. mode_configs a mode = Some config \<and> import_class E config = Inr cls \<longrightarrow>
            (\<exists>a' v. switch_to_mode E mode a = Inr a' \<and> visualizer a' = Some v
               \<and> status_bar a' = title config @ txt_data_size @ str_nat (length (vdata v))))
       \<and> (\<forall>a'. reset_sort E a = Inr a' \<and> visualizer a \<noteq> None \<longrightarrow>
            (\<exists>v. visualizer a' = Some v
               \<and> status_bar a' = txt_reset @ str_nat (length (vdata v))))
       \<and> (\<forall>a'. generate_data E sz a = Inr a' \<and> visualizer a \<noteq> None \<longrightarrow>
            (\<exists>v. visualizer a' = Some v
               \<and> status_bar a' = txt_generated @ str_nat (length (vdata v))))
       \<and> (\<exists>a' v. init E = Inr a' \<and> visualizer a' = Some v
               \<and> status_bar a' = title_basic @ txt_data_size @ str_nat (length (vdata v)))"
proof (intro conjI allI impI)
  fix config cls
  assume "mode_configs a mode = Some config \<and> import_class E config = Inr cls"
  then have cfg: "mode_configs a mode = Some config" and imp: "import_class E config = Inr cls"
    by simp_all
  from switch_to_mode_loaded [OF cfg imp]
  show "\<exists>a' v. switch_to_mode E mode a = Inr a' \<and> visualizer a' = Some v
     \<and> status_bar a' = title config @ txt_data_size @ str_nat (length (vdata v))"
    by (auto simp: new draw)
next
  fix a'
  assume "reset_sort E a = Inr a' \<and> visualizer a \<noteq> None"
  then show "\<exists>v. visualizer a' = Some v \<and> status_bar a' = txt_reset @ str_nat (length (vdata v))"
    by (auto simp: reset_sort_def Let_def split: option.splits)
next
  fix a'
  assume "generate_data E sz a = Inr a' \<and> visualizer a \<noteq> None"
  then show "\<exists>v. visualizer a' = Some v
     \<and> status_bar a' = txt_generated @ str_nat (length (vdata v))"
    by (auto simp: generate_data_def current_config_def Let_def reset
        split: option.splits sum.splits)
next
  have cfg: "mode_configs (created E) (ascii ''basic'') = Some basic_config"
    by (simp add: created_def registry_lookup)
  from switch_to_mode_loaded [OF cfg import_basic, of E]
  show "\<exists>a' v. init E = Inr a' \<and> visualizer a' = Some v
     \<and> status_bar a' = title_basic @ txt_data_size @ str_nat (length (vdata v))"
    by (auto simp: init_def new draw registry_titles)
qed

theorem status_size_is_length_of_visualizer_array_witness:
  "(\<forall>cls xs. vdata (v_new ref_env cls xs) = xs)
   \<and> (\<forall>v. vdata (v_draw ref_env v) = vdata v)
   \<and> (\<forall>xs v. vdata (v_reset ref_env (Some xs) v) = xs)
   \<and> visualizer app_quick \<noteq> None
   \<and> generate_data ref_env 12 app_quick = Inr app_regenerated
   \<and> status_bar app_regenerated = txt_generated @ str_nat 8
   \<and> map_option (length \<circ> vdata) (visualizer app_regenerated) = Some 8
   \<and> init ref_env = Inr app_basic
   \<and> status_bar app_basic = title_basic @ txt_data_size @ str_nat 15
   \<and> map_option (length \<circ> vdata) (visualizer app_basic) = Some 15"
proof -
  have new: "\<And>cls xs. vdata (v_new ref_env cls xs) = xs"
    by (simp add: ref_env_def)
  have draw: "\<And>v. vdata (v_draw ref_env v) = vdata v"
    by (simp add: ref_env_def)
  have reset: "\<And>xs v. vdata (v_reset ref_env (Some xs) v) = xs"
    by (simp add: ref_env_def)
  have held: "visualizer app_quick \<noteq> None"
    by (simp add: app_quick_fields)
  from status_size_is_length_of_visualizer_array [OF new draw reset, of app_quick _ 12]
    generate_quick held
  obtain v where v: "visualizer app_regenerated = Some v"
    and status: "status_bar app_regenerated = txt_generated @ str_nat (length (vdata v))"
    by blast
  from v have "length (vdata v) = 8"
    by (auto simp: app_regenerated_fields)
  with status have "status_bar app_regenerated = txt_generated @ str_nat 8"
    by simp
  with new draw reset held show ?thesis
    by (simp add: generate_quick init_ref_env app_regenerated_fields app_basic_fields
        data15_def str_nat.simps ascii_def)
qed

section \<open>Start and resume\<close>

lemma start_sort_resume:
  assumes "visualizer a = Some v" and "controls a = Some c"
    and "current_mode a = Some mode" and "mode_configs a mode = Some config"
    and "v_can_resume E (v_set_step_mode E (step_mode_var c) v)"
  shows "\<exists>a'. start_sort E a = Inr a'
     \<and> mode_configs a' = mode_configs a \<and> current_mode a' = current_mode a
     \<and> data a' = data a \<and> title_label a' = title_label a
     \<and> controls a' = Some (c\<lparr>running_state := True\<rparr>)
     \<and> status_bar a' = txt_resumed @ title config
     \<and> visualizer a' =
         (case current_generator (v_set_step_mode E (step_mode_var c) v) of
            None \<Rightarrow> Some ((v_set_step_mode E (step_mode_var c) v)
                             \<lparr>is_paused := False, is_running := True\<rparr>)
          | Some g \<Rightarrow> Some (v_run_visualization E g
                             ((v_set_step_mode E (step_mode_var c) v)
                                \<lparr>is_paused := False, is_running := True\<rparr>)))
     \<and> trace a' = trace a @ [VSetStepMode (step_mode_var c), SetRunningState True]
         @ (case current_generator (v_set_step_mode E (step_mode_var c) v) of
              None \<Rightarrow> [] | Some g \<Rightarrow> [VRun g])
         @ [SetStatus (txt_resumed @ title config)]"
  using assms
  by (simp add: start_sort_def Let_def resume_visualization_def current_config_def
      split: option.splits)

lemma start_sort_fresh:
  assumes "visualizer a = Some v" and "controls a = Some c"
    and "current_mode a = Some mode" and "mode_configs a mode = Some config"
    and "\<not> v_can_resume E (v_set_step_mode E (step_mode_var c) v)"
  shows "\<exists>a'. start_sort E a = Inr a'
     \<and> mode_configs a' = mode_configs a \<and> current_mode a' = current_mode a
     \<and> data a' = data a \<and> title_label a' = title_label a
     \<and> controls a' = Some (c\<lparr>running_state := True\<rparr>)
     \<and> status_bar a' = txt_running @
         (if has_algorithm_selection config
          then (case ALGORITHM_NAMES E (algorithm_var c) of
                  Some n \<Rightarrow> n | None \<Rightarrow> algorithm_var c)
          else title config)
     \<and> visualizer a' =
         Some (v_sort E (if has_algorithm_selection config then Some (algorithm_var c) else None)
                 (v_set_step_mode E (step_mode_var c) v))
     \<and> trace a' = trace a @
         [VSetStepMode (step_mode_var c), SetRunningState True,
          VSort (if has_algorithm_selection config then Some (algorithm_var c) else None),
          SetStatus (txt_running @
            (if has_algorithm_selection config
             then (case ALGORITHM_NAMES E (algorithm_var c) of
                     Some n \<Rightarrow> n | None \<Rightarrow> algorithm_var c)
             else title config))]"
  using assms
  by (simp add: start_sort_def Let_def current_config_def)

lemma selection_only_in_basic:
  assumes "MODE_CONFIGS mode = Some config"
  shows "has_algorithm_selection config \<longleftrightarrow> mode = ascii ''basic''"
  using registry_cases [OF assms] mode_names_distinct registry_selection by auto

text \<open>
  C2: let \<open>v1\<close> be the Visualizer after \<open>set_step_mode\<close>. When \<open>can_resume()\<close> holds of it
  and it has a producer \<open>g\<close>, start runs \<open>_run_visualization\<close> on that \<open>g\<close> and calls no
  \<open>sort()\<close>; when \<open>can_resume()\<close> holds and there is no producer, nothing is run and no
  \<open>sort()\<close> is called either. Only when \<open>can_resume()\<close> fails is \<open>sort()\<close> called, with
  the selection of the controls as its argument when the mode has an algorithm selection
  and with no argument otherwise; in the registry, the basic mode is the one mode with
  an algorithm selection.
\<close>

theorem start_resumes_the_suspended_producer:
  assumes vis: "visualizer a = Some v" and ctl: "controls a = Some c"
    and mode: "current_mode a = Some mode" and cfg: "mode_configs a mode = Some config"
    and v1: "v1 = v_set_step_mode E (step_mode_var c) v"
  shows "(\<forall>g. v_can_resume E v1 \<and> current_generator v1 = Some g \<longrightarrow>
            (\<exists>a'. start_sort E a = Inr a'
               \<and> visualizer a' =
                   Some (v_run_visualization E g (v1\<lparr>is_paused := False, is_running := True\<rparr>))
               \<and> trace a' = trace a @
                   [VSetStepMode (step_mode_var c), SetRunningState True, VRun g,
                    SetStatus (txt_resumed @ title config)]))
       \<and> (v_can_resume E v1 \<and> current_generator v1 = None \<longrightarrow>
            (\<exists>a'. start_sort E a = Inr a'
               \<and> visualizer a' = Some (v1\<lparr>is_paused := False, is_running := True\<rparr>)
               \<and> trace a' = trace a @
                   [VSetStepMode (step_mode_var c), SetRunningState True,
                    SetStatus (txt_resumed @ title config)]))
       \<and> (\<not> v_can_resume E v1 \<and> has_algorithm_selection config \<longrightarrow>
            (\<exists>a'. start_sort E a = Inr a'
               \<and> visualizer a' = Some (v_sort E (Some (algorithm_var c)) v1)
               \<and> trace a' = trace a @
                   [VSetStepMode (step_mode_var c), SetRunningState True,
                    VSort (Some (algorithm_var c)),
                    SetStatus (txt_running @
                      (case ALGORITHM_NAMES E (algorithm_var c) of
                         Some n \<Rightarrow> n | None \<Rightarrow> algorithm_var c))]))
       \<and> (\<not> v_can_resume E v1 \<and> \<not> has_algorithm_selection config \<longrightarrow>
            (\<exists>a'. start_sort E a = Inr a'
               \<and> visualizer a' = Some (v_sort E None v1)
               \<and> trace a' = trace a @
                   [VSetStepMode (step_mode_var c), SetRunningState True, VSort None,
                    SetStatus (txt_running @ title config)]))
       \<and> (mode_configs a = MODE_CONFIGS \<longrightarrow>
            (has_algorithm_selection config \<longleftrightarrow> mode = ascii ''basic''))"
proof (intro conjI allI impI)
  fix g
  assume "v_can_resume E v1 \<and> current_generator v1 = Some g"
  with start_sort_resume [OF vis ctl mode cfg, of E] v1
  show "\<exists>a'. start_sort E a = Inr a'
     \<and> visualizer a' =
         Some (v_run_visualization E g (v1\<lparr>is_paused := False, is_running := True\<rparr>))
     \<and> trace a' = trace a @
         [VSetStepMode (step_mode_var c), SetRunningState True, VRun g,
          SetStatus (txt_resumed @ title config)]"
    by auto
next
  assume "v_can_resume E v1 \<and> current_generator v1 = None"
  with start_sort_resume [OF vis ctl mode cfg, of E] v1
  show "\<exists>a'. start_sort E a = Inr a'
     \<and> visualizer a' = Some (v1\<lparr>is_paused := False, is_running := True\<rparr>)
     \<and> trace a' = trace a @
         [VSetStepMode (step_mode_var c), SetRunningState True,
          SetStatus (txt_resumed @ title config)]"
    by auto
next
  assume "\<not> v_can_resume E v1 \<and> has_algorithm_selection config"
  with start_sort_fresh [OF vis ctl mode cfg, of E] v1
  show "\<exists>a'. start_sort E a = Inr a'
     \<and> visualizer a' = Some (v_sort E (Some (algorithm_var c)) v1)
     \<and> trace a' = trace a @
         [VSetStepMode (step_mode_var c), SetRunningState True,
          VSort (Some (algorithm_var c)),
          SetStatus (txt_running @
            (case ALGORITHM_NAMES E (algorithm_var c) of
               Some n \<Rightarrow> n | None \<Rightarrow> algorithm_var c))]"
    by auto
next
  assume "\<not> v_can_resume E v1 \<and> \<not> has_algorithm_selection config"
  with start_sort_fresh [OF vis ctl mode cfg, of E] v1
  show "\<exists>a'. start_sort E a = Inr a'
     \<and> visualizer a' = Some (v_sort E None v1)
     \<and> trace a' = trace a @
         [VSetStepMode (step_mode_var c), SetRunningState True, VSort None,
          SetStatus (txt_running @ title config)]"
    by auto
next
  assume reg: "mode_configs a = MODE_CONFIGS"
  from cfg reg have "MODE_CONFIGS mode = Some config" by simp
  then show "has_algorithm_selection config \<longleftrightarrow> mode = ascii ''basic''"
    by (rule selection_only_in_basic)
qed

theorem start_resumes_the_suspended_producer_witness:
  "visualizer app_paused \<noteq> None
   \<and> v_can_resume ref_env (the (visualizer app_paused))
   \<and> current_generator (the (visualizer app_paused))
       = Some (Producer (Some (ascii ''bubble'')) data15)
   \<and> map_sum id trace (start_sort ref_env app_paused) =
       Inr (trace app_paused @
         [VSetStepMode False, SetRunningState True,
          VRun (Producer (Some (ascii ''bubble'')) data15),
          SetStatus (txt_resumed @ title_basic)])
   \<and> map_sum id (map_option current_generator \<circ> visualizer) (start_sort ref_env app_paused) =
       Inr (Some (Some (Producer (Some (ascii ''bubble'')) data15)))
   \<and> \<not> v_can_resume ref_env (the (visualizer app_quick))
   \<and> map_sum id trace (start_sort ref_env app_quick) =
       Inr (trace app_quick @
         [VSetStepMode False, SetRunningState True, VSort None,
          SetStatus (txt_running @ title_quick)])"
proof -
  let ?c = "\<lparr>step_mode_var = False, algorithm_var = ascii ''bubble'', running_state = False\<rparr>"
  let ?g = "Producer (Some (ascii ''bubble'')) data15"
  let ?vp = "\<lparr>vdata = data15, is_running = False, is_paused = True, step_mode = False,
     delay = 0, current_generator = Some ?g, on_complete = Some On_sort_complete\<rparr>"
  let ?vq = "\<lparr>vdata = [65, 2, 39, 76, 13, 50, 87, 24], is_running = False, is_paused = False,
     step_mode = False, delay = 0, current_generator = None :: producer option,
     on_complete = Some On_sort_complete\<rparr>"
  have vis_p: "visualizer app_paused = Some ?vp" and ctl_p: "controls app_paused = Some ?c"
    and mode_p: "current_mode app_paused = Some (ascii ''basic'')"
    and cfg_p: "mode_configs app_paused (ascii ''basic'') = Some basic_config"
    by (simp_all add: app_paused_fields registry_lookup)
  have vis_q: "visualizer app_quick = Some ?vq" and ctl_q: "controls app_quick = Some ?c"
    and mode_q: "current_mode app_quick = Some (ascii ''quick'')"
    and cfg_q: "mode_configs app_quick (ascii ''quick'') = Some quick_config"
    by (simp_all add: app_quick_fields registry_lookup)
  have can_p: "v_can_resume ref_env (v_set_step_mode ref_env (step_mode_var ?c) ?vp)"
    and gen_p: "current_generator (v_set_step_mode ref_env (step_mode_var ?c) ?vp) = Some ?g"
    and can_q: "\<not> v_can_resume ref_env (v_set_step_mode ref_env (step_mode_var ?c) ?vq)"
    by (simp_all add: ref_env_def)
  from start_resumes_the_suspended_producer [OF vis_p ctl_p mode_p cfg_p refl, of ref_env]
    can_p gen_p
  obtain ap where "start_sort ref_env app_paused = Inr ap"
    and "visualizer ap = Some (v_run_visualization ref_env ?g
           ((v_set_step_mode ref_env (step_mode_var ?c) ?vp)
              \<lparr>is_paused := False, is_running := True\<rparr>))"
    and "trace ap = trace app_paused @
           [VSetStepMode (step_mode_var ?c), SetRunningState True, VRun ?g,
            SetStatus (txt_resumed @ title basic_config)]"
    by blast
  then have paused: "map_sum id trace (start_sort ref_env app_paused) =
       Inr (trace app_paused @
         [VSetStepMode False, SetRunningState True, VRun ?g,
          SetStatus (txt_resumed @ title_basic)])"
    and resumed: "map_sum id (map_option current_generator \<circ> visualizer)
       (start_sort ref_env app_paused) = Inr (Some (Some ?g))"
    by (simp_all add: registry_titles, simp add: ref_env_def)
  from start_resumes_the_suspended_producer [OF vis_q ctl_q mode_q cfg_q refl, of ref_env]
    can_q registry_selection
  obtain aq where "start_sort ref_env app_quick = Inr aq"
    and "trace aq = trace app_quick @
           [VSetStepMode (step_mode_var ?c), SetRunningState True, VSort None,
            SetStatus (txt_running @ title quick_config)]"
    by blast
  then have quick: "map_sum id trace (start_sort ref_env app_quick) =
       Inr (trace app_quick @
         [VSetStepMode False, SetRunningState True, VSort None,
          SetStatus (txt_running @ title_quick)])"
    by (simp add: registry_titles)
  from paused resumed quick show ?thesis
    by (simp add: vis_p vis_q, simp add: ref_env_def)
qed

section \<open>Changing the algorithm\<close>






section \<open>A Visualizer that cannot be loaded\<close>

text \<open>
  In the reference environment the module of the merge mode cannot be imported. A switch
  to it from the running basic mode returns normally, but the current mode and the title
  are then those of the merge mode, the Visualizer has been stopped, and the control frame
  has been cleared: a failed load does change the mode, the Visualizer and the control
  panel.
\<close>

theorem failed_load_changes_mode_counterexample:
  "MODE_CONFIGS (ascii ''merge'') = Some merge_config
   \<and> import_class ref_env merge_config = Inl ImportError
   \<and> current_mode app_running = Some (ascii ''basic'')
   \<and> map_sum id current_mode (switch_to_mode ref_env (ascii ''merge'') app_running)
       = Inr (Some (ascii ''merge''))
   \<and> map_option is_running (visualizer app_running) = Some True
   \<and> map_sum id (map_option is_running \<circ> visualizer)
        (switch_to_mode ref_env (ascii ''merge'') app_running) = Inr (Some False)
   \<and> map_sum id trace (switch_to_mode ref_env (ascii ''merge'') app_running)
       = Inr (trace app_running @
           [VStop, SetTitle title_merge, ClearControlFrame, CanvasDeleteAll,
            CanvasCreateText 590 250 (title_merge @ txt_placeholder),
            SetStatus (title_merge @ txt_not_implemented)])"
proof -
  have cfg: "mode_configs app_running (ascii ''merge'') = Some merge_config"
    by (simp add: app_running_fields registry_lookup)
  from switch_to_mode_not_loaded [OF cfg ref_env_imports(3)]
  obtain a' where "switch_to_mode ref_env (ascii ''merge'') app_running = Inr a'"
    and "current_mode a' = Some (ascii ''merge'')"
    and "visualizer a' = map_option (v_stop ref_env) (visualizer app_running)"
    and "trace a' = trace (stop_current ref_env app_running) @
      [SetTitle (title merge_config), ClearControlFrame, CanvasDeleteAll,
       CanvasCreateText (half_or (winfo_width ref_env) 400) (half_or (winfo_height ref_env) 250)
         (title merge_config @ txt_placeholder),
       SetStatus (title merge_config @ txt_not_implemented)]"
    by blast
  then show ?thesis
    by (simp add: registry_lookup ref_env_imports app_running_fields registry_titles,
        simp add: ref_env_def half_or_def)
qed

text \<open>
  C4, amended: when the class of a registered mode cannot be imported, the switch
  returns normally (the ImportError is not propagated); it has stopped the Visualizer
  the Orchestrator held, which stays the one held, has set the current mode and the title
  to the requested mode and has cleared the control frame, and it then clears the canvas,
  draws the placeholder text and sets the status to the "not implemented" message. The
  controls object, the dataset and the registry are unchanged; no ControlPanel and no
  Visualizer is created and \<open>set_running_state\<close> is not called.
\<close>

theorem failed_load_shows_placeholder:
  assumes cfg: "mode_configs a mode = Some config"
    and fail: "import_class E config = Inl ImportError"
  shows "\<exists>a'. switch_to_mode E mode a = Inr a'
     \<and> current_mode a' = Some mode
     \<and> title_label a' = title config
     \<and> status_bar a' = title config @ txt_not_implemented
     \<and> visualizer a' = map_option (v_stop E) (visualizer a)
     \<and> controls a' = controls a
     \<and> data a' = data a
     \<and> mode_configs a' = mode_configs a
     \<and> trace a' = trace a @ (if visualizer a = None then [] else [VStop]) @
         [SetTitle (title config), ClearControlFrame, CanvasDeleteAll,
          CanvasCreateText (half_or (winfo_width E) 400) (half_or (winfo_height E) 250)
            (title config @ txt_placeholder),
          SetStatus (title config @ txt_not_implemented)]"
  using switch_to_mode_not_loaded [OF cfg fail] by auto

theorem failed_load_shows_placeholder_witness:
  "mode_configs app_basic (ascii ''merge'') = Some merge_config
   \<and> import_class ref_env merge_config = Inl ImportError
   \<and> map_sum id status_bar (switch_to_mode ref_env (ascii ''merge'') app_basic)
       = Inr (title_merge @ txt_not_implemented)
   \<and> map_sum id title_label (switch_to_mode ref_env (ascii ''merge'') app_basic)
       = Inr title_merge
   \<and> map_sum id data (switch_to_mode ref_env (ascii ''merge'') app_basic) = Inr data15
   \<and> map_sum id controls (switch_to_mode ref_env (ascii ''merge'') app_basic)
       = Inr (controls app_basic)"
proof -
  have cfg: "mode_configs app_basic (ascii ''merge'') = Some merge_config"
    by (simp add: app_basic_fields registry_lookup)
  from failed_load_shows_placeholder [OF cfg ref_env_imports(3)]
  obtain a' where "switch_to_mode ref_env (ascii ''merge'') app_basic = Inr a'"
    and "title_label a' = title merge_config"
    and "status_bar a' = title merge_config @ txt_not_implemented"
    and "controls a' = controls app_basic"
    and "data a' = data app_basic"
    by blast
  with cfg show ?thesis
    by (simp add: ref_env_imports registry_titles app_basic_fields)
qed

section \<open>The steps of a mode switch\<close>

text \<open>
  A switch to the merge mode, which is in the registry, constructs no Visualizer, wires
  no callback and draws nothing when the module cannot be imported; and in a switch that
  does construct one (to the quick mode) the title is set before the Visualizer is
  constructed, not after the draw.
\<close>

theorem switch_steps_counterexample:
  "ascii ''merge'' \<in> dom MODE_CONFIGS
   \<and> mode_configs app_basic = MODE_CONFIGS
   \<and> map_sum id trace (switch_to_mode ref_env (ascii ''merge'') app_basic)
       = Inr (trace app_basic @
           [VStop, SetTitle title_merge, ClearControlFrame, CanvasDeleteAll,
            CanvasCreateText 590 250 (title_merge @ txt_placeholder),
            SetStatus (title_merge @ txt_not_implemented)])
   \<and> map_sum id trace (switch_to_mode ref_env (ascii ''quick'') app_basic)
       = Inr (trace app_basic @
           [VStop, SetTitle title_quick, ClearControlFrame, NewControlPanel False,
            VNew (ascii ''QuickSortVisualizer'') [65, 2, 39, 76, 13, 50, 87, 24],
            VSetOnComplete, VDraw, SetStatus (title_quick @ txt_data_size @ ascii ''8'')])"
proof -
  have cfg: "mode_configs app_basic (ascii ''merge'') = Some merge_config"
    by (simp add: app_basic_fields registry_lookup)
  from switch_to_mode_not_loaded [OF cfg ref_env_imports(3)]
  obtain a' where "switch_to_mode ref_env (ascii ''merge'') app_basic = Inr a'"
    and "trace a' = trace (stop_current ref_env app_basic) @
      [SetTitle (title merge_config), ClearControlFrame, CanvasDeleteAll,
       CanvasCreateText (half_or (winfo_width ref_env) 400) (half_or (winfo_height ref_env) 250)
         (title merge_config @ txt_placeholder),
       SetStatus (title merge_config @ txt_not_implemented)]"
    by blast
  then have "map_sum id trace (switch_to_mode ref_env (ascii ''merge'') app_basic)
       = Inr (trace app_basic @
           [VStop, SetTitle title_merge, ClearControlFrame, CanvasDeleteAll,
            CanvasCreateText 590 250 (title_merge @ txt_placeholder),
            SetStatus (title_merge @ txt_not_implemented)])"
    by (simp add: registry_titles app_basic_fields(7), simp add: ref_env_def half_or_def)
  then show ?thesis
    by (simp add: switch_quick app_quick_trace app_basic_fields(1) registry_lookup domI)
qed

text \<open>
  C6, amended: a switch to a registered mode whose class can be loaded performs, in this
  order: \<open>stop()\<close> on the Visualizer held (if there is one), the update of the title,
  the clearing of the control frame, the creation of the ControlPanel, the construction
  of the new Visualizer from the dataset truncated to the cap of the mode, the wiring of
  the completion callback, the first \<open>draw()\<close>, and the update of the status to the title
  of the mode and the size of the data. The Orchestrator then holds the new Visualizer
  and the new mode is current.
\<close>

theorem switch_performs_steps_in_order:
  assumes cfg: "mode_configs a mode = Some config"
    and load: "import_class E config = Inr cls"
  shows "\<exists>a'. switch_to_mode E mode a = Inr a'
     \<and> trace a' = trace a @ (if visualizer a = None then [] else [VStop]) @
         [SetTitle (title config), ClearControlFrame,
          NewControlPanel (has_algorithm_selection config),
          VNew cls (data_to_use config (data a)), VSetOnComplete, VDraw,
          SetStatus (title config @ txt_data_size
                       @ str_nat (length (data_to_use config (data a))))]
     \<and> current_mode a' = Some mode
     \<and> title_label a' = title config
     \<and> status_bar a' =
         title config @ txt_data_size @ str_nat (length (data_to_use config (data a)))
     \<and> visualizer a' =
         Some (v_draw E ((v_new E cls (data_to_use config (data a)))
                 \<lparr>on_complete := Some On_sort_complete\<rparr>))"
  using switch_to_mode_loaded [OF cfg load] by auto

theorem switch_performs_steps_in_order_witness:
  "mode_configs app_running (ascii ''heap'') = Some heap_config
   \<and> import_class ref_env heap_config = Inr (ascii ''HeapSortVisualizer'')
   \<and> map_sum id trace (switch_to_mode ref_env (ascii ''heap'') app_running)
       = Inr (trace app_running @
           [VStop, SetTitle title_heap, ClearControlFrame, NewControlPanel False,
            VNew (ascii ''HeapSortVisualizer'') (take 10 data15), VSetOnComplete, VDraw,
            SetStatus (title_heap @ txt_data_size @ ascii ''10'')])"
proof -
  have cfg: "mode_configs app_running (ascii ''heap'') = Some heap_config"
    by (simp add: app_running_fields registry_lookup)
  from switch_performs_steps_in_order [OF cfg ref_env_imports(4)]
  obtain a' where "switch_to_mode ref_env (ascii ''heap'') app_running = Inr a'"
    and "trace a' = trace app_running @ (if visualizer app_running = None then [] else [VStop]) @
         [SetTitle (title heap_config), ClearControlFrame,
          NewControlPanel (has_algorithm_selection heap_config),
          VNew (ascii ''HeapSortVisualizer'') (data_to_use heap_config (data app_running)),
          VSetOnComplete, VDraw,
          SetStatus (title heap_config @ txt_data_size
                       @ str_nat (length (data_to_use heap_config (data app_running))))]"
    by blast
  with cfg show ?thesis
    by (simp add: ref_env_imports registry_titles registry_selection data_to_use_registry
        app_running_fields, simp add: data15_def str_nat.simps ascii_def)
qed

end
